theory Spec2Isabelle
  imports Complex_Main "HOL-Library.Sublist"
begin

section \<open>Python values, exceptions and responses\<close>

text \<open>
  Exceptions are values. Each constructor stands for an exception class together with its
  subclasses; the string is what \<open>str(e)\<close> gives. \<open>OtherException\<close> stands for every
  class that none of the \<open>except\<close> clauses of the sources names (it is still an instance
  of \<open>Exception\<close>).
\<close>

datatype exn =
    KafkaError string
  | InvalidTokenError string
  | KeyError string
  | TypeError string
  | UnsupportedMediaType string
  | OtherException string

datatype 'a outcome = Return 'a | Raise exn

fun is_KafkaError :: "exn \<Rightarrow> bool" where
  "is_KafkaError (KafkaError m) = True"
| "is_KafkaError e = False"

fun is_InvalidTokenError :: "exn \<Rightarrow> bool" where
  "is_InvalidTokenError (InvalidTokenError m) = True"
| "is_InvalidTokenError e = False"

fun str_exn :: "exn \<Rightarrow> string" where
  "str_exn (KafkaError m) = m"
| "str_exn (InvalidTokenError m) = m"
| "str_exn (KeyError m) = m"
| "str_exn (TypeError m) = m"
| "str_exn (UnsupportedMediaType m) = m"
| "str_exn (OtherException m) = m"

text \<open>
  The values a claim set or an event payload carries. \<open>PDatetime t\<close> is a
  \<open>datetime\<close> object for the instant \<open>t\<close>, \<open>PInt\<close> a Python integer, \<open>PFloat\<close> a
  float (as the real number it stands for); instants and durations are counted in seconds.
\<close>

datatype pyval = PNone | PBool bool | PInt int | PFloat real | PStr string | PDatetime int

fun truthy :: "pyval \<Rightarrow> bool" where
  "truthy PNone = False"
| "truthy (PBool b) = b"
| "truthy (PInt i) = (i \<noteq> 0)"
| "truthy (PFloat x) = (x \<noteq> 0)"
| "truthy (PStr s) = (s \<noteq> [])"
| "truthy (PDatetime t) = True"

type_synonym claims = "string \<rightharpoonup> pyval"

text \<open>The constants of the \<open>messages\<close> module, by name.\<close>

datatype msg =
    TOKEN_IS_MISSING
  | INVALID_TOKEN_FORMAT
  | TOKEN_IS_INVALID
  | UNAUTHORIZED_USER
  | ERR_TOKEN_GENERATE
  | LOGOUT_SUCCESSFULLY
  | INTERNAL_SERVER_ERROR
  | USER_NOT_FOUND
  | USER_NON_VALIDATED_EMAIL
  | USER_VALIDATED_SUCCESSFULLY
  | USER_ALREADY_VALIDATED
  | EMAIL_SENT_SUCCESSFULLY
  | UNSUPPORTED_MEDIA_TYPE
  | BAD_REQUEST

text \<open>
  A handler returns a pair of a body and an HTTP status. \<open>Message m\<close> is the body
  \<open>{'message': messages.m}\<close>, \<open>SchemaErrors\<close> the body carrying validation messages,
  \<open>Body\<close> any other body.
\<close>

datatype 'a body = Message msg | SchemaErrors string | Body 'a

type_synonym 'a response = "'a body \<times> nat"

text \<open>
  A function that returns either its value or an error pair \<open>({'message': m}, status)\<close>.
\<close>

datatype 'a or_error = Value 'a | ErrorTuple msg nat


section \<open>Strings\<close>

text \<open>
  \<open>s.replace(old, '')\<close>: every non-overlapping occurrence of \<open>old\<close>, scanning from the
  left, is removed. An empty \<open>old\<close> leaves the string as it is.
\<close>

function replace_del :: "string \<Rightarrow> string \<Rightarrow> string" where
  "replace_del old [] = []"
| "replace_del old (c # cs) =
     (if old \<noteq> [] \<and> prefix old (c # cs)
      then replace_del old (drop (length old) (c # cs))
      else c # replace_del old cs)"
  by pat_completeness auto
termination
  by (relation "measure (\<lambda>(old, s). length s)") auto

text \<open>\<open>sep.join(xs)\<close>.\<close>

fun join :: "string \<Rightarrow> string list \<Rightarrow> string" where
  "join sep [] = []"
| "join sep [x] = x"
| "join sep (x # y # ys) = x @ sep @ join sep (y # ys)"


section \<open>The revocation cache\<close>

text \<open>
  The shared cache as the handlers use it: \<open>cache.set(key, value, timeout=t)\<close> stores a
  value with the timeout the caller passed (\<open>None\<close> when the call passes none, so that the
  cache's configured default applies), \<open>cache.get(key)\<close> reads the value or gives
  \<open>None\<close>.
\<close>

record cache_entry =
  ce_value :: string
  ce_timeout :: "nat option"

type_synonym cache = "string \<rightharpoonup> cache_entry"

definition cache_get :: "cache \<Rightarrow> string \<Rightarrow> string option" where
  "cache_get c k = map_option ce_value (c k)"

definition cache_set :: "cache \<Rightarrow> string \<Rightarrow> string \<Rightarrow> nat option \<Rightarrow> cache" where
  "cache_set c k v t = c(k \<mapsto> \<lparr>ce_value = v, ce_timeout = t\<rparr>)"

text \<open>The truth value of what \<open>cache.get\<close> returned: \<open>None\<close> and \<open>''\<close> are false.\<close>

fun truthy_str :: "string option \<Rightarrow> bool" where
  "truthy_str None = False"
| "truthy_str (Some s) = (s \<noteq> [])"

definition blacklist_key :: "string \<Rightarrow> string" where
  "blacklist_key token = ''BLACKLIST_TOKEN_'' @ token"


section \<open>The environment of the authentication service\<close>

text \<open>
  What the service reads from outside the files at hand: the deployment
  configuration (\<open>config_env\<close>), the clock (\<open>datetime.utcnow()\<close>), the two entry
  points of the JWT library, the user table (\<open>UserModel.get_by_email\<close>,
  \<open>UserModel.validate_email\<close>, which may raise), the schemas (\<open>validate_schema\<close> gives
  the messages of a \<open>ValidationError\<close>, or \<open>None\<close>; \<open>schema_dump\<close> is
  \<open>UserGetSchema().dump\<close>, which may raise) and how Python prints an error pair inside
  an f-string. \<open>jwt_encode payload key algorithm\<close> is
  \<open>jwt.encode(payload, key, algorithm=algorithm)\<close>; \<open>jwt_decode token key algorithms\<close> is
  \<open>jwt.decode(token, key, algorithms=algorithms)\<close>, with the instant at which the
  library reads the clock as its last argument.
\<close>

record user =
  user_email :: string
  user_uuid :: string
  user_email_valid :: bool

record env =
  env_config :: "string \<rightharpoonup> string"
  env_utcnow :: int
  jwt_encode :: "claims \<Rightarrow> string \<Rightarrow> string \<Rightarrow> string outcome"
  jwt_decode :: "string \<Rightarrow> string \<Rightarrow> string list \<Rightarrow> int \<Rightarrow> claims outcome"
  get_by_email :: "pyval \<Rightarrow> user option"
  validate_email :: "user \<Rightarrow> exn option"
  validate_schema :: "string \<Rightarrow> (string \<rightharpoonup> pyval) \<Rightarrow> string option"
  schema_dump :: "user \<Rightarrow> exn option"
  format_error_tuple :: "msg \<Rightarrow> nat \<Rightarrow> string"

text \<open>\<open>config_env(name)\<close> without a default raises when the name is not configured.\<close>

definition config_env :: "env \<Rightarrow> string \<Rightarrow> string outcome" where
  "config_env E name =
     (case env_config E name of
        None \<Rightarrow> Raise (OtherException name)
      | Some v \<Rightarrow> Return v)"

text \<open>
  A request of the authentication service: its headers and what \<open>request.get_json()\<close>
  gives.
\<close>

record request =
  req_headers :: "string \<rightharpoonup> string"
  req_json :: "(string \<rightharpoonup> pyval) outcome"


section \<open>token\_provider\<close>

definition ACCESS_TOKEN_EXPIRE :: int where
  "ACCESS_TOKEN_EXPIRE = 30"

definition timedelta_days :: "int \<Rightarrow> int" where
  "timedelta_days d = d * 86400"

text \<open>
  \<open>create_token\<close> stores the expiration in the caller's mapping before anything else, so
  the model returns the mapping as the call leaves it together with the call's outcome.
\<close>

definition create_token :: "env \<Rightarrow> claims \<Rightarrow> claims \<times> string or_error outcome" where
  "create_token E payload =
     (let exp = env_utcnow E + timedelta_days ACCESS_TOKEN_EXPIRE;
          payload' = payload(''exp'' \<mapsto> PDatetime exp)
      in (payload',
          case config_env E ''SECRET_KEY'' of
            Raise e \<Rightarrow> Raise e
          | Return key \<Rightarrow>
              (case config_env E ''ALGORITHM'' of
                 Raise e \<Rightarrow> Raise e
               | Return alg \<Rightarrow>
                   (case jwt_encode E payload' key alg of
                      Raise e \<Rightarrow> Raise e
                    | Return token \<Rightarrow>
                        if token = [] then Return (ErrorTuple ERR_TOKEN_GENERATE 400)
                        else Return (Value token)))))"

text \<open>
  The call \<open>jwt.decode(token, config_env('SECRET_KEY'), algorithms=[config_env('ALGORITHM')])\<close>:
  the arguments are evaluated first, and either lookup may raise.
\<close>

definition decode_call :: "env \<Rightarrow> string \<Rightarrow> claims outcome" where
  "decode_call E token =
     (case config_env E ''SECRET_KEY'' of
        Raise e \<Rightarrow> Raise e
      | Return key \<Rightarrow>
          (case config_env E ''ALGORITHM'' of
             Raise e \<Rightarrow> Raise e
           | Return alg \<Rightarrow> jwt_decode E token key [alg] (env_utcnow E)))"

text \<open>
  A handler runs against the cache and may change it. The decorators wrap a function from
  the decoded claim set to a handler.
\<close>

type_synonym 'a handler = "cache \<Rightarrow> 'a response outcome \<times> cache"

definition verify_token ::
  "env \<Rightarrow> request \<Rightarrow> (claims \<Rightarrow> 'a handler) \<Rightarrow> 'a handler" where
  "verify_token E req f c =
     (case req_headers req ''Authorization'' of
        None \<Rightarrow> (Return (Message TOKEN_IS_MISSING, 401), c)
      | Some header \<Rightarrow>
          if \<not> prefix ''Bearer '' header
          then (Return (Message INVALID_TOKEN_FORMAT, 401), c)
          else
            let token = replace_del ''Bearer '' header;
                cache_token = cache_get c (blacklist_key token)
            in if truthy_str cache_token
               then (Return (Message TOKEN_IS_INVALID, 401), c)
               else (case decode_call E token of
                       Raise e \<Rightarrow> (Return (Message TOKEN_IS_INVALID, 401), c)
                     | Return user_authenticated \<Rightarrow> f user_authenticated c))"

definition verify_token_email :: "env \<Rightarrow> string \<Rightarrow> claims or_error outcome" where
  "verify_token_email E token =
     (case decode_call E (replace_del ''Bearer '' token) of
        Raise e \<Rightarrow>
          if is_InvalidTokenError e then Return (ErrorTuple TOKEN_IS_INVALID 401)
          else Raise e
      | Return user_authenticated \<Rightarrow> Return (Value user_authenticated))"

definition admin_required :: "(claims \<Rightarrow> 'a handler) \<Rightarrow> claims \<Rightarrow> 'a handler" where
  "admin_required f user_authenticated c =
     (case user_authenticated ''is_admin'' of
        None \<Rightarrow> (Raise (KeyError ''is_admin''), c)
      | Some v \<Rightarrow>
          if \<not> truthy v then (Return (Message UNAUTHORIZED_USER, 401), c)
          else f user_authenticated c)"


section \<open>KafkaService\<close>

text \<open>
  The broker client as \<open>producer\<close> drives it: building the \<open>KafkaProducer\<close>, \<open>send\<close>
  (which runs the value serializer), \<open>flush\<close> and \<open>close\<close>. Each call succeeds
  (\<open>None\<close>) or raises.
\<close>

record ('t, 'v) producer_client =
  pc_connect :: "exn option"
  pc_send :: "'t \<Rightarrow> string \<Rightarrow> 'v \<Rightarrow> exn option"
  pc_flush :: "exn option"
  pc_close :: "exn option"

definition producer_try :: "('t, 'v) producer_client \<Rightarrow> 't \<Rightarrow> string \<Rightarrow> 'v \<Rightarrow> unit outcome" where
  "producer_try K topic key value =
     (case pc_connect K of
        Some e \<Rightarrow> Raise e
      | None \<Rightarrow>
          (case pc_send K topic key value of
             Some e \<Rightarrow> Raise e
           | None \<Rightarrow>
               (case pc_flush K of
                  Some e \<Rightarrow> Raise e
                | None \<Rightarrow>
                    (case pc_close K of
                       Some e \<Rightarrow> Raise e
                     | None \<Rightarrow> Return ()))))"

text \<open>
  \<open>producer\<close> gives the lines it printed and how the call ended. Only the clause
  \<open>except KafkaError\<close> guards the body.
\<close>

definition producer ::
  "('t, 'v) producer_client \<Rightarrow> 't \<Rightarrow> string \<Rightarrow> 'v \<Rightarrow> string list \<times> unit outcome" where
  "producer K topic key value =
     (case producer_try K topic key value of
        Return u \<Rightarrow> ([], Return ())
      | Raise e \<Rightarrow>
          if is_KafkaError e
          then ([''Erro ao enviar a mensagem: '' @ str_exn e], Return ())
          else ([], Raise e))"

text \<open>
  \<open>probe n\<close> is how the \<open>n\<close>-th attempt to build a \<open>KafkaConsumer\<close> ends.
\<close>

definition is_broker_available :: "(nat \<Rightarrow> exn option) \<Rightarrow> nat \<Rightarrow> bool outcome" where
  "is_broker_available probe n =
     (case probe n of
        None \<Rightarrow> Return True
      | Some e \<Rightarrow> if is_KafkaError e then Return False else Raise e)"

text \<open>
  The wait loop, from its \<open>n\<close>-th probe on, having slept \<open>slept\<close> seconds. It gives how it
  ended and the seconds slept; \<open>None\<close> is the loop that never ends.
\<close>

partial_function (option) wait_for_broker ::
  "(nat \<Rightarrow> exn option) \<Rightarrow> nat \<Rightarrow> nat \<Rightarrow> (unit outcome \<times> nat) option" where
  "wait_for_broker probe n slept =
     (case is_broker_available probe n of
        Raise e \<Rightarrow> Some (Raise e, slept)
      | Return available \<Rightarrow>
          if \<not> available then wait_for_broker probe (Suc n) (slept + 1)
          else Some (Return (), slept))"

text \<open>
  The consumer side of the client: the probes of the wait loop, building the
  \<open>KafkaConsumer\<close>, \<open>subscribe\<close>, the messages the iterator yields, \<open>poll\<close> while a
  message is handled, and the decoders \<open>bytes.decode('utf-8')\<close> and \<open>json.loads\<close>.
\<close>

record raw_message =
  rm_key :: "string option"
  rm_value :: "string option"

record 'v consumer_client =
  cc_probe :: "nat \<Rightarrow> exn option"
  cc_connect :: "exn option"
  cc_subscribe :: "string \<Rightarrow> exn option"
  cc_messages :: "raw_message list"
  cc_poll :: "raw_message \<Rightarrow> exn option"
  cc_decode :: "string \<Rightarrow> string outcome"
  cc_json_loads :: "string \<Rightarrow> 'v outcome"

definition bytes_decode :: "'v consumer_client \<Rightarrow> string option \<Rightarrow> string outcome" where
  "bytes_decode K b =
     (case b of
        None \<Rightarrow> Raise (OtherException ''AttributeError'')
      | Some s \<Rightarrow> cc_decode K s)"

text \<open>
  One turn of the \<open>for\<close> loop. The result lists the calls made to the callback (at most
  one) and how the turn ended.
\<close>

definition handle_message ::
  "'v consumer_client \<Rightarrow> (string \<Rightarrow> 'v \<Rightarrow> exn option) \<Rightarrow> raw_message \<Rightarrow>
     (string \<times> 'v) list \<times> unit outcome" where
  "handle_message K callback message =
     (case cc_poll K message of
        Some e \<Rightarrow> ([], Raise e)
      | None \<Rightarrow>
          (case bytes_decode K (rm_key message) of
             Raise e \<Rightarrow> ([], Raise e)
           | Return key \<Rightarrow>
               (case bytes_decode K (rm_value message) of
                  Raise e \<Rightarrow> ([], Raise e)
                | Return text \<Rightarrow>
                    (case cc_json_loads K text of
                       Raise e \<Rightarrow> ([], Raise e)
                     | Return msg \<Rightarrow>
                         ([(key, msg)],
                          case callback key msg of
                            Some e \<Rightarrow> Raise e
                          | None \<Rightarrow> Return ())))))"

fun consume_loop ::
  "'v consumer_client \<Rightarrow> (string \<Rightarrow> 'v \<Rightarrow> exn option) \<Rightarrow> raw_message list \<Rightarrow>
     (string \<times> 'v) list \<times> unit outcome" where
  "consume_loop K callback [] = ([], Return ())"
| "consume_loop K callback (message # rest) =
     (case handle_message K callback message of
        (calls, Raise e) \<Rightarrow> (calls, Raise e)
      | (calls, Return u) \<Rightarrow>
          (case consume_loop K callback rest of
             (calls', r) \<Rightarrow> (calls @ calls', r)))"

definition consumer_try ::
  "'v consumer_client \<Rightarrow> string \<Rightarrow> (string \<Rightarrow> 'v \<Rightarrow> exn option) \<Rightarrow>
     (string \<times> 'v) list \<times> unit outcome" where
  "consumer_try K topic callback =
     (case cc_connect K of
        Some e \<Rightarrow> ([], Raise e)
      | None \<Rightarrow>
          (case cc_subscribe K topic of
             Some e \<Rightarrow> ([], Raise e)
           | None \<Rightarrow> consume_loop K callback (cc_messages K)))"

text \<open>
  \<open>consumer\<close> gives the calls made to the callback, the lines printed and how the call
  ended; \<open>None\<close> when the wait for the broker never ends. The wait is outside the
  \<open>try\<close>; the \<open>try\<close> encloses the whole loop.
\<close>

definition consumer ::
  "'v consumer_client \<Rightarrow> string \<Rightarrow> (string \<Rightarrow> 'v \<Rightarrow> exn option) \<Rightarrow>
     ((string \<times> 'v) list \<times> string list \<times> unit outcome) option" where
  "consumer K topic callback =
     (case wait_for_broker (cc_probe K) 0 0 of
        None \<Rightarrow> None
      | Some (Raise e, slept) \<Rightarrow> Some ([], [], Raise e)
      | Some (Return u, slept) \<Rightarrow>
          (case consumer_try K topic callback of
             (calls, Return u') \<Rightarrow> Some (calls, [], Return ())
           | (calls, Raise e) \<Rightarrow>
               if is_KafkaError e
               then Some (calls, [''Erro ao enviar a mensagem: '' @ str_exn e], Return ())
               else Some (calls, [], Raise e)))"

text \<open>
  \<open>Thread(target=KafkaService().producer, args=(topic, key, payload,)).start()\<close>: the
  call is handed to a new thread, and the handler goes on without it.
\<close>

datatype 't thread = Thread_producer 't string "(string \<times> pyval) list"


section \<open>The gateway's middleware\<close>

text \<open>
  The request as the hooks see it. \<open>gw_transaction_id\<close> and \<open>gw_start_time\<close> are the
  attributes the \<open>before_request\<close> hooks store on the request (\<open>None\<close> before they ran);
  \<open>gw_view_args\<close> is the dictionary of resolved path parameters, in its order.
\<close>

record 'a gw_request =
  gw_headers :: "string \<rightharpoonup> string"
  gw_endpoint :: "string option"
  gw_url_rule :: "string option"
  gw_view_args :: "(string \<times> 'a) list option"
  gw_remote_addr :: "string option"
  gw_method :: string
  gw_transaction_id :: "string option"
  gw_start_time :: "real option"

text \<open>
  What a hook reads from outside: the application's name, \<open>os.getenv\<close>, the value
  \<open>str(uuid.uuid4())\<close> gives, \<open>time.time()\<close>, \<open>str(datetime.now())\<close> and \<open>str\<close> on a
  path parameter.
\<close>

record 'a gw_env =
  app_name :: string
  os_getenv :: "string \<rightharpoonup> string"
  uuid4 :: string
  time_time :: real
  datetime_now :: string
  str_arg :: "'a \<Rightarrow> string"

record 'b gw_response =
  status_code :: int
  resp_body :: 'b

definition add_transaction_id :: "'a gw_env \<Rightarrow> 'a gw_request \<Rightarrow> 'a gw_request" where
  "add_transaction_id W request =
     (if truthy_str (gw_headers request ''X-TRANSACTION-ID'')
      then request\<lparr>gw_transaction_id := gw_headers request ''X-TRANSACTION-ID''\<rparr>
      else request\<lparr>gw_transaction_id := Some (uuid4 W)\<rparr>)"

definition start_timer :: "'a gw_env \<Rightarrow> 'a gw_request \<Rightarrow> 'a gw_request" where
  "start_timer W request = request\<lparr>gw_start_time := Some (time_time W)\<rparr>"

definition opt_str :: "string option \<Rightarrow> pyval" where
  "opt_str v = (case v of None \<Rightarrow> PNone | Some s \<Rightarrow> PStr s)"

definition params_text :: "'a gw_env \<Rightarrow> 'a gw_request \<Rightarrow> string" where
  "params_text W request =
     (case gw_view_args request of
        None \<Rightarrow> []
      | Some [] \<Rightarrow> []
      | Some (kv # kvs) \<Rightarrow> join '', '' (map (\<lambda>(name, value). str_arg W value) (kv # kvs)))"

text \<open>
  \<open>register_request_log\<close> gives how the hook ended and the threads it started. Reading
  an attribute that no hook has stored raises \<open>AttributeError\<close>.
\<close>

definition register_request_log ::
  "'a gw_env \<Rightarrow> 'a gw_request \<Rightarrow> 'b gw_response \<Rightarrow>
     'b gw_response outcome \<times> string option thread list" where
  "register_request_log W request response =
     (if gw_endpoint request = Some ''health'' then (Return response, [])
      else
        (case gw_transaction_id request of
           None \<Rightarrow> (Raise (OtherException ''AttributeError''), [])
         | Some transaction_id \<Rightarrow>
             (case gw_start_time request of
                None \<Rightarrow> (Raise (OtherException ''AttributeError''), [])
              | Some start_time \<Rightarrow>
                  let payload =
                    [(''datetime'', PStr (datetime_now W)),
                     (''service'', PStr (app_name W)),
                     (''transaction_id'', PStr transaction_id),
                     (''ip'', opt_str (gw_remote_addr request)),
                     (''method'', PStr (gw_method request)),
                     (''endpoint'',
                        PStr (case gw_url_rule request of
                                Some rule \<Rightarrow> rule
                              | None \<Rightarrow> ''NOT_FOUND'')),
                     (''params'', PStr (params_text W request)),
                     (''status'', PInt (status_code response)),
                     (''duration'', PFloat (time_time W - start_time))]
                  in (Return response,
                      [Thread_producer (os_getenv W ''TOPIC_REQUESTS_LOG'') (app_name W) payload]))))"

text \<open>A request through the gateway's hooks: both \<open>before_request\<close> hooks, then the
  \<open>after_request\<close> hook on the response of the view. \<open>W0\<close> is the outside at the start of
  the request, \<open>W1\<close> at its end.\<close>

definition gateway_request ::
  "'a gw_env \<Rightarrow> 'a gw_env \<Rightarrow> 'a gw_request \<Rightarrow> 'b gw_response \<Rightarrow>
     'b gw_response outcome \<times> string option thread list" where
  "gateway_request W0 W1 request response =
     register_request_log W1 (start_timer W0 (add_transaction_id W0 request)) response"



section \<open>usercontroller\<close>

text \<open>
  The handlers below are modelled with their effects on the cache and the threads they
  start. The calls to \<open>Logger().dispatch\<close> are left out: they only write a log line.
  \<open>except_500\<close> is the clause \<open>except Exception\<close> that ends every handler.
\<close>

definition except_500 :: "'a response outcome \<times> 's \<Rightarrow> 'a response outcome \<times> 's" where
  "except_500 r =
     (case r of
        (Raise e, s) \<Rightarrow> (Return (Message INTERNAL_SERVER_ERROR, 500), s)
      | (Return v, s) \<Rightarrow> (Return v, s))"

definition logout_try :: "request \<Rightarrow> claims \<Rightarrow> unit handler" where
  "logout_try req user_authenticated c =
     (case req_headers req ''Authorization'' of
        None \<Rightarrow> (Raise (KeyError ''Authorization''), c)
      | Some header \<Rightarrow>
          let token = replace_del ''Bearer '' header;
              c' = cache_set c (blacklist_key token) token None
          in (case user_authenticated ''uuid'' of
                None \<Rightarrow> (Raise (KeyError ''uuid''), c')
              | Some uuid \<Rightarrow> (Return (Message LOGOUT_SUCCESSFULLY, 200), c')))"

definition LogoutResource_get :: "env \<Rightarrow> request \<Rightarrow> unit handler" where
  "LogoutResource_get E req =
     verify_token E req (\<lambda>user_authenticated c. except_500 (logout_try req user_authenticated c))"

text \<open>
  \<open>verify_token_email\<close> gives an error pair for an invalid token. The pair is not empty,
  so \<open>not user_authenticated\<close> is false for it, and the subscript \<open>['email']\<close> on it
  raises \<open>TypeError\<close>.
\<close>

definition reset_password_try :: "env \<Rightarrow> string \<Rightarrow> unit handler" where
  "reset_password_try E token c =
     (if truthy_str (cache_get c (blacklist_key token))
      then (Return (Message TOKEN_IS_INVALID, 401), c)
      else
        (case verify_token_email E token of
           Raise e \<Rightarrow> (Raise e, c)
         | Return (ErrorTuple m status) \<Rightarrow> (Raise (TypeError ''tuple indices''), c)
         | Return (Value user_authenticated) \<Rightarrow>
             if user_authenticated = Map.empty
             then (Return (Message TOKEN_IS_INVALID, 401), c)
             else
               (case user_authenticated ''email'' of
                  None \<Rightarrow> (Raise (KeyError ''email''), c)
                | Some email \<Rightarrow>
                    (case get_by_email E email of
                       None \<Rightarrow> (Return (Message USER_NOT_FOUND, 404), c)
                     | Some user \<Rightarrow>
                         if \<not> user_email_valid user
                         then (Return (Message USER_NON_VALIDATED_EMAIL, 400), c)
                         else
                           let c' = cache_set c (blacklist_key token) token
                                      (Some (60 * 60 * 24 * 7))
                           in (case schema_dump E user of
                                 Some e \<Rightarrow> (Raise e, c')
                               | None \<Rightarrow>
                                   (Return (Message USER_VALIDATED_SUCCESSFULLY, 200), c'))))))"

definition ResetPasswordResource_get :: "env \<Rightarrow> string \<Rightarrow> unit handler" where
  "ResetPasswordResource_get E token c = except_500 (reset_password_try E token c)"

definition validate_email_try :: "env \<Rightarrow> string \<Rightarrow> unit handler" where
  "validate_email_try E token c =
     (if truthy_str (cache_get c (blacklist_key token))
      then (Return (Message TOKEN_IS_INVALID, 401), c)
      else
        (case verify_token_email E token of
           Raise e \<Rightarrow> (Raise e, c)
         | Return (ErrorTuple m status) \<Rightarrow> (Raise (TypeError ''tuple indices''), c)
         | Return (Value user_authenticated) \<Rightarrow>
             if user_authenticated = Map.empty
             then (Return (Message TOKEN_IS_INVALID, 401), c)
             else
               (case user_authenticated ''email'' of
                  None \<Rightarrow> (Raise (KeyError ''email''), c)
                | Some email \<Rightarrow>
                    (case get_by_email E email of
                       None \<Rightarrow> (Return (Message USER_NOT_FOUND, 404), c)
                     | Some user \<Rightarrow>
                         if user_email_valid user
                         then (Return (Message USER_ALREADY_VALIDATED, 400), c)
                         else
                           (case validate_email E user of
                              Some e \<Rightarrow> (Return (Message INTERNAL_SERVER_ERROR, 500), c)
                            | None \<Rightarrow>
                                let c' = cache_set c (blacklist_key token) token
                                           (Some (60 * 60 * 24 * 7))
                                in (case schema_dump E user of
                                      Some e \<Rightarrow> (Raise e, c')
                                    | None \<Rightarrow>
                                        (Return (Message USER_VALIDATED_SUCCESSFULLY, 200),
                                         c')))))))"

definition ValidateEmailResource_get :: "env \<Rightarrow> string \<Rightarrow> unit handler" where
  "ValidateEmailResource_get E token c = except_500 (validate_email_try E token c)"

text \<open>\<open>f'{token}'\<close> on what \<open>create_token\<close> returned.\<close>

definition format_token :: "env \<Rightarrow> string or_error \<Rightarrow> string" where
  "format_token E r =
     (case r of
        Value token \<Rightarrow> token
      | ErrorTuple m status \<Rightarrow> format_error_tuple E m status)"

definition html_link :: "string \<Rightarrow> string" where
  "html_link url =
     ''<html><body><a href='' @ [CHR 0x27] @ url @ [CHR 0x27] @ ''>Clique aqui</a></body></html>''"

text \<open>
  The two handlers that hand an e-mail to the notification worker. They give the response
  and the threads started.
\<close>

definition schema_messages :: "string option \<Rightarrow> string" where
  "schema_messages v = (case v of None \<Rightarrow> [] | Some s \<Rightarrow> s)"

definition get_json_failed :: "exn \<Rightarrow> unit response" where
  "get_json_failed e =
     (case e of
        UnsupportedMediaType m \<Rightarrow> (Message UNSUPPORTED_MEDIA_TYPE, 415)
      | _ \<Rightarrow> (Message BAD_REQUEST, 400))"

definition forgot_password_try ::
  "env \<Rightarrow> request \<Rightarrow> unit response outcome \<times> string thread list" where
  "forgot_password_try E req =
     (case req_json req of
        Raise e \<Rightarrow> (Return (get_json_failed e), [])
      | Return data \<Rightarrow>
          (let schema_validate = validate_schema E ''ForgotPasswordSchema'' data
           in if truthy_str schema_validate
              then (Return (SchemaErrors (schema_messages schema_validate), 400), [])
              else
                (case data ''email'' of
                   None \<Rightarrow> (Raise (KeyError ''email''), [])
                 | Some email \<Rightarrow>
                     (case get_by_email E email of
                        None \<Rightarrow> (Return (Message USER_NOT_FOUND, 404), [])
                      | Some user \<Rightarrow>
                          (case snd (create_token E [''email'' \<mapsto> PStr (user_email user)]) of
                             Raise e \<Rightarrow> (Raise e, [])
                           | Return token \<Rightarrow>
                               (case config_env E ''API_GATEWAY_HOST'' of
                                  Raise e \<Rightarrow> (Raise e, [])
                                | Return host \<Rightarrow>
                                    let url = host @ ''/auth/users/reset-password/'' @ format_token E token @ ''/'';
                                        payload =
                                          [(''transaction_id'',
                                              opt_str (req_headers req ''X-TRANSACTION-ID'')),
                                           (''email'', email),
                                           (''subject'', PStr ''Recovey Password''),
                                           (''template'', PStr (html_link url))]
                                    in (case config_env E ''TOPIC_SEND_EMAIL_RECOVERY_PASSWORD'' of
                                          Raise e \<Rightarrow> (Raise e, [])
                                        | Return topic \<Rightarrow>
                                            (Return (Message EMAIL_SENT_SUCCESSFULLY, 200),
                                             [Thread_producer topic (user_uuid user) payload]))))))))"

definition ForgotPasswordResource_post ::
  "env \<Rightarrow> request \<Rightarrow> unit response outcome \<times> string thread list" where
  "ForgotPasswordResource_post E req = except_500 (forgot_password_try E req)"

definition send_email_validation_try ::
  "env \<Rightarrow> request \<Rightarrow> unit response outcome \<times> string thread list" where
  "send_email_validation_try E req =
     (case req_json req of
        Raise e \<Rightarrow> (Return (get_json_failed e), [])
      | Return data \<Rightarrow>
          (let schema_validate = validate_schema E ''UserSendEmailValidationSchema'' data
           in if truthy_str schema_validate
              then (Return (SchemaErrors (schema_messages schema_validate), 400), [])
              else
                (case data ''email'' of
                   None \<Rightarrow> (Raise (KeyError ''email''), [])
                 | Some email \<Rightarrow>
                     (case get_by_email E email of
                        None \<Rightarrow> (Return (Message USER_NOT_FOUND, 404), [])
                      | Some user \<Rightarrow>
                          if user_email_valid user
                          then (Return (Message USER_ALREADY_VALIDATED, 400), [])
                          else
                            (case snd (create_token E [''email'' \<mapsto> PStr (user_email user)]) of
                               Raise e \<Rightarrow> (Raise e, [])
                             | Return token \<Rightarrow>
                                 (case config_env E ''API_GATEWAY_HOST'' of
                                    Raise e \<Rightarrow> (Raise e, [])
                                  | Return host \<Rightarrow>
                                      let url = host @ ''/auth/users/validate-email/'' @ format_token E token @ ''/'';
                                          payload =
                                            [(''transaction_id'',
                                                opt_str (req_headers req ''X-TRANSACTION-ID'')),
                                             (''email'', email),
                                             (''subject'', PStr ''Account Validation''),
                                             (''template'', PStr (html_link url))]
                                      in (case config_env E ''TOPIC_SEND_EMAIL_VALIDATION_ACCOUNT'' of
                                            Raise e \<Rightarrow> (Raise e, [])
                                          | Return topic \<Rightarrow>
                                              (Return (Message EMAIL_SENT_SUCCESSFULLY, 200),
                                               [Thread_producer topic (user_uuid user) payload]))))))))"

definition SendEmailValidationResource_post ::
  "env \<Rightarrow> request \<Rightarrow> unit response outcome \<times> string thread list" where
  "SendEmailValidationResource_post E req = except_500 (send_email_validation_try E req)"



section \<open>The contract of the JWT library\<close>



section \<open>Concrete inputs\<close>

text \<open>A small stand-in for the JWT library, a configuration and a user table.\<close>

definition example_encode :: "claims \<Rightarrow> string \<Rightarrow> string \<Rightarrow> string outcome" where
  "example_encode p key alg =
     (case p ''email'' of
        Some (PStr s) \<Rightarrow> Return (''email.'' @ s)
      | _ \<Rightarrow> Raise (TypeError ''not serializable''))"

definition example_decode :: "string \<Rightarrow> string \<Rightarrow> string list \<Rightarrow> int \<Rightarrow> claims outcome" where
  "example_decode token key algs t =
     (if key \<noteq> ''s3cret'' \<or> algs \<noteq> [''HS256'']
      then Raise (InvalidTokenError ''Signature verification failed'')
      else if 2593000 \<le> t then Raise (InvalidTokenError ''Signature has expired'')
      else if token = ''admin.jwt''
      then Return [''uuid'' \<mapsto> PStr ''u0'', ''is_admin'' \<mapsto> PBool True, ''exp'' \<mapsto> PInt 2593000]
      else if token = ''user.jwt''
      then Return [''uuid'' \<mapsto> PStr ''u1'', ''is_admin'' \<mapsto> PBool False, ''exp'' \<mapsto> PInt 2593000]
      else if prefix ''email.'' token
      then Return [''email'' \<mapsto> PStr (drop 6 token), ''exp'' \<mapsto> PInt 2593000]
      else Raise (InvalidTokenError ''Not enough segments''))"

definition example_user :: user where
  "example_user = \<lparr>user_email = ''a@b.c'', user_uuid = ''u1'', user_email_valid = True\<rparr>"

definition new_user :: user where
  "new_user = \<lparr>user_email = ''new@b.c'', user_uuid = ''u2'', user_email_valid = False\<rparr>"

definition example_env :: env where
  "example_env =
     \<lparr>env_config =
        [''SECRET_KEY'' \<mapsto> ''s3cret'', ''ALGORITHM'' \<mapsto> ''HS256'',
         ''API_GATEWAY_HOST'' \<mapsto> ''http://gw'',
         ''TOPIC_SEND_EMAIL_RECOVERY_PASSWORD'' \<mapsto> ''recovery'',
         ''TOPIC_SEND_EMAIL_VALIDATION_ACCOUNT'' \<mapsto> ''validation''],
      env_utcnow = 1000,
      jwt_encode = example_encode,
      jwt_decode = example_decode,
      get_by_email =
        (\<lambda>v. if v = PStr ''a@b.c'' then Some example_user
             else if v = PStr ''new@b.c'' then Some new_user
             else None),
      validate_email = (\<lambda>u. None),
      validate_schema = (\<lambda>name data. None),
      schema_dump = (\<lambda>u. None),
      format_error_tuple = (\<lambda>m status. ''error'')\<rparr>"

definition bearer :: "string \<Rightarrow> request" where
  "bearer header =
     \<lparr>req_headers = [''Authorization'' \<mapsto> header],
      req_json = Raise (UnsupportedMediaType ''no body'')\<rparr>"

definition no_headers :: request where
  "no_headers = \<lparr>req_headers = Map.empty, req_json = Return [''email'' \<mapsto> PStr ''a@b.c'']\<rparr>"

definition ok_handler :: "claims \<Rightarrow> unit handler" where
  "ok_handler user_authenticated c = (Return (Body (), 200), c)"

definition revoked_cache :: "string \<Rightarrow> cache" where
  "revoked_cache token = cache_set Map.empty (blacklist_key token) token None"

text \<open>A producer client whose value serializer rejects the payload, and one whose broker is
  down.\<close>

definition serializer_fails :: "(string, unit) producer_client" where
  "serializer_fails =
     \<lparr>pc_connect = None,
      pc_send = (\<lambda>topic key value. Some (TypeError ''not JSON serializable'')),
      pc_flush = None,
      pc_close = None\<rparr>"

definition broker_down :: "(string, unit) producer_client" where
  "broker_down =
     \<lparr>pc_connect = Some (KafkaError ''NoBrokersAvailable''),
      pc_send = (\<lambda>topic key value. None),
      pc_flush = None,
      pc_close = None\<rparr>"

text \<open>A consumer client that is up and yields three messages, and a callback that fails
  with a given exception on a given key.\<close>

definition three_messages :: "string consumer_client" where
  "three_messages =
     \<lparr>cc_probe = (\<lambda>n. None),
      cc_connect = None,
      cc_subscribe = (\<lambda>topic. None),
      cc_messages =
        [\<lparr>rm_key = Some ''k1'', rm_value = Some ''v1''\<rparr>,
         \<lparr>rm_key = Some ''k2'', rm_value = Some ''v2''\<rparr>,
         \<lparr>rm_key = Some ''k3'', rm_value = Some ''v3''\<rparr>],
      cc_poll = (\<lambda>message. None),
      cc_decode = Return,
      cc_json_loads = Return\<rparr>"

definition fails_on :: "string \<Rightarrow> exn \<Rightarrow> string \<Rightarrow> string \<Rightarrow> exn option" where
  "fails_on k e key msg = (if key = k then Some e else None)"

text \<open>A broker that refuses the first \<open>N\<close> probes and accepts from then on, and one that
  never accepts.\<close>

definition up_after :: "nat \<Rightarrow> nat \<Rightarrow> exn option" where
  "up_after N n = (if n < N then Some (KafkaError ''NoBrokersAvailable'') else None)"

definition never_up :: "nat \<Rightarrow> exn option" where
  "never_up n = Some (KafkaError ''NoBrokersAvailable'')"

text \<open>The gateway's outside at the start and at the end of a request, and three requests.\<close>

definition gw_start :: "string gw_env" where
  "gw_start =
     \<lparr>app_name = ''gateway'', os_getenv = [''TOPIC_REQUESTS_LOG'' \<mapsto> ''requests''],
      uuid4 = ''0f8fad5b'', time_time = 10, datetime_now = ''2024-01-01 00:00:10'',
      str_arg = (\<lambda>s. s)\<rparr>"

definition gw_end :: "string gw_env" where
  "gw_end = gw_start\<lparr>time_time := 12, datetime_now := ''2024-01-01 00:00:12''\<rparr>"

definition gw_example :: "string option \<Rightarrow> (string \<rightharpoonup> string) \<Rightarrow> string gw_request" where
  "gw_example endpoint headers =
     \<lparr>gw_headers = headers,
      gw_endpoint = endpoint,
      gw_url_rule = Some ''/users/<user_uuid>/roles/<role>/'',
      gw_view_args = Some [(''user_uuid'', ''u1''), (''role'', ''admin'')],
      gw_remote_addr = Some ''10.0.0.1'',
      gw_method = ''GET'',
      gw_transaction_id = None,
      gw_start_time = None\<rparr>"

definition ok_response :: "unit gw_response" where
  "ok_response = \<lparr>status_code = 200, resp_body = ()\<rparr>"



section \<open>Helper facts\<close>



lemma example_config [simp]:
  "config_env example_env ''SECRET_KEY'' = Return ''s3cret''"
  "config_env example_env ''ALGORITHM'' = Return ''HS256''"
  "config_env example_env ''API_GATEWAY_HOST'' = Return ''http://gw''"
  "config_env example_env ''TOPIC_SEND_EMAIL_RECOVERY_PASSWORD'' = Return ''recovery''"
  "config_env example_env ''TOPIC_SEND_EMAIL_VALIDATION_ACCOUNT'' = Return ''validation''"
  by (simp_all add: config_env_def example_env_def)

lemma example_decode_call:
  "decode_call example_env token = example_decode token ''s3cret'' [''HS256''] 1000"
  by (simp add: decode_call_def) (simp add: example_env_def)


section \<open>The authentication guard\<close>

text \<open>
  C1. The guard follows the state machine, in this order: without an \<open>Authorization\<close>
  header it answers \<open>TOKEN_IS_MISSING\<close>; with a header that does not start with
  \<open>Bearer \<close> it answers \<open>INVALID_TOKEN_FORMAT\<close>; when the cache holds an entry for the
  token's key \<open>BLACKLIST_TOKEN_<token>\<close> (every entry the handlers write carries the
  token itself, which is not empty) it answers \<open>TOKEN_IS_INVALID\<close>; when decoding raises
  anything it answers the same \<open>TOKEN_IS_INVALID\<close>; otherwise the wrapped handler runs on
  the decoded claim set. Under \<open>admin_required\<close> a claim set whose \<open>is_admin\<close> is false
  is answered \<open>UNAUTHORIZED_USER\<close>, and one whose \<open>is_admin\<close> is true reaches the
  handler unchanged. Every rejection has status 401 and leaves the cache as it was.
\<close>

theorem verify_token_state_machine:
  "(req_headers req ''Authorization'' = None \<longrightarrow>
      verify_token E req f c = (Return (Message TOKEN_IS_MISSING, 401), c))
 \<and> (\<forall>header. req_headers req ''Authorization'' = Some header
        \<and> \<not> prefix ''Bearer '' header \<longrightarrow>
      verify_token E req f c = (Return (Message INVALID_TOKEN_FORMAT, 401), c))
 \<and> (\<forall>header entry. req_headers req ''Authorization'' = Some header
        \<and> prefix ''Bearer '' header
        \<and> c (blacklist_key (replace_del ''Bearer '' header)) = Some entry
        \<and> ce_value entry \<noteq> [] \<longrightarrow>
      verify_token E req f c = (Return (Message TOKEN_IS_INVALID, 401), c))
 \<and> (\<forall>header e. req_headers req ''Authorization'' = Some header
        \<and> prefix ''Bearer '' header
        \<and> c (blacklist_key (replace_del ''Bearer '' header)) = None
        \<and> decode_call E (replace_del ''Bearer '' header) = Raise e \<longrightarrow>
      verify_token E req f c = (Return (Message TOKEN_IS_INVALID, 401), c))
 \<and> (\<forall>header user. req_headers req ''Authorization'' = Some header
        \<and> prefix ''Bearer '' header
        \<and> c (blacklist_key (replace_del ''Bearer '' header)) = None
        \<and> decode_call E (replace_del ''Bearer '' header) = Return user \<longrightarrow>
      verify_token E req f c = f user c)
 \<and> (\<forall>user. user ''is_admin'' = Some (PBool False) \<longrightarrow>
      admin_required g user c = (Return (Message UNAUTHORIZED_USER, 401), c))
 \<and> (\<forall>user. user ''is_admin'' = Some (PBool True) \<longrightarrow>
      admin_required g user c = g user c)"
  by (simp add: verify_token_def admin_required_def cache_get_def)

theorem verify_token_state_machine_witness:
  "verify_token example_env no_headers (admin_required ok_handler) Map.empty
     = (Return (Message TOKEN_IS_MISSING, 401), Map.empty)
 \<and> verify_token example_env (bearer ''Token admin.jwt'') (admin_required ok_handler) Map.empty
     = (Return (Message INVALID_TOKEN_FORMAT, 401), Map.empty)
 \<and> verify_token example_env (bearer ''Bearer admin.jwt'') (admin_required ok_handler)
       (revoked_cache ''admin.jwt'')
     = (Return (Message TOKEN_IS_INVALID, 401), revoked_cache ''admin.jwt'')
 \<and> verify_token example_env (bearer ''Bearer x'') (admin_required ok_handler) Map.empty
     = (Return (Message TOKEN_IS_INVALID, 401), Map.empty)
 \<and> verify_token example_env (bearer ''Bearer user.jwt'') (admin_required ok_handler) Map.empty
     = (Return (Message UNAUTHORIZED_USER, 401), Map.empty)
 \<and> verify_token example_env (bearer ''Bearer admin.jwt'') (admin_required ok_handler) Map.empty
     = (Return (Body (), 200), Map.empty)"
proof -
  let ?f = "admin_required ok_handler"
  note sm = verify_token_state_machine [where E = example_env and f = ?f and g = ok_handler]
  have d_admin: "decode_call example_env ''admin.jwt''
      = Return [''uuid'' \<mapsto> PStr ''u0'', ''is_admin'' \<mapsto> PBool True, ''exp'' \<mapsto> PInt 2593000]"
    by (simp add: example_decode_call example_decode_def)
  have d_user: "decode_call example_env ''user.jwt''
      = Return [''uuid'' \<mapsto> PStr ''u1'', ''is_admin'' \<mapsto> PBool False, ''exp'' \<mapsto> PInt 2593000]"
    by (simp add: example_decode_call example_decode_def)
  have d_x: "decode_call example_env ''x'' = Raise (InvalidTokenError ''Not enough segments'')"
    by (simp add: example_decode_call example_decode_def)
  have 1: "verify_token example_env no_headers ?f Map.empty
      = (Return (Message TOKEN_IS_MISSING, 401), Map.empty)"
    using sm [of no_headers Map.empty] by (simp add: no_headers_def)
  have 2: "verify_token example_env (bearer ''Token admin.jwt'') ?f Map.empty
      = (Return (Message INVALID_TOKEN_FORMAT, 401), Map.empty)"
    using sm [of "bearer ''Token admin.jwt''" Map.empty] by (simp add: bearer_def)
  have 3: "verify_token example_env (bearer ''Bearer admin.jwt'') ?f (revoked_cache ''admin.jwt'')
      = (Return (Message TOKEN_IS_INVALID, 401), revoked_cache ''admin.jwt'')"
    using sm [of "bearer ''Bearer admin.jwt''" "revoked_cache ''admin.jwt''"]
    by (simp add: bearer_def revoked_cache_def cache_set_def)
  have 4: "verify_token example_env (bearer ''Bearer x'') ?f Map.empty
      = (Return (Message TOKEN_IS_INVALID, 401), Map.empty)"
    using sm [of "bearer ''Bearer x''" Map.empty] d_x by (simp add: bearer_def)
  have 5: "verify_token example_env (bearer ''Bearer user.jwt'') ?f Map.empty
      = (Return (Message UNAUTHORIZED_USER, 401), Map.empty)"
    using sm [of "bearer ''Bearer user.jwt''" Map.empty] d_user by (simp add: bearer_def)
  have 6: "verify_token example_env (bearer ''Bearer admin.jwt'') ?f Map.empty
      = (Return (Body (), 200), Map.empty)"
    using sm [of "bearer ''Bearer admin.jwt''" Map.empty] d_admin
    by (simp add: bearer_def ok_handler_def)
  from 1 2 3 4 5 6 show ?thesis by simp
qed



text \<open>
  C7. Take two requests whose \<open>Authorization\<close> header starts with \<open>Bearer \<close>: one whose
  token's key is in the cache, one whose token is not revoked and fails to decode, whatever
  the exception (signature, structure or expiration). The guard gives both the same
  response, the pair of \<open>TOKEN_IS_INVALID\<close> and status 401, so the response does not tell
  the cause.
\<close>

theorem rejection_causes_indistinguishable:
  assumes "req_headers r1 ''Authorization'' = Some h1" and "prefix ''Bearer '' h1"
    and "c1 (blacklist_key (replace_del ''Bearer '' h1)) = Some entry" and "ce_value entry \<noteq> []"
    and "req_headers r2 ''Authorization'' = Some h2" and "prefix ''Bearer '' h2"
    and "c2 (blacklist_key (replace_del ''Bearer '' h2)) = None"
    and "decode_call E2 (replace_del ''Bearer '' h2) = Raise e"
  shows "fst (verify_token E1 r1 f1 c1) = fst (verify_token E2 r2 f2 c2)
       \<and> fst (verify_token E1 r1 f1 c1) = Return (Message TOKEN_IS_INVALID, 401)"
  using assms by (simp add: verify_token_def cache_get_def)

theorem rejection_causes_indistinguishable_witness:
  "fst (verify_token example_env (bearer ''Bearer admin.jwt'') ok_handler (revoked_cache ''admin.jwt''))
     = fst (verify_token (example_env\<lparr>env_utcnow := 2593000\<rparr>) (bearer ''Bearer user.jwt'')
              ok_handler Map.empty)
 \<and> fst (verify_token example_env (bearer ''Bearer admin.jwt'') ok_handler (revoked_cache ''admin.jwt''))
     = Return (Message TOKEN_IS_INVALID, 401)"
proof (rule rejection_causes_indistinguishable)
  show "req_headers (bearer ''Bearer admin.jwt'') ''Authorization'' = Some ''Bearer admin.jwt''"
    by (simp add: bearer_def)
  show "prefix ''Bearer '' ''Bearer admin.jwt''" by simp
  show "revoked_cache ''admin.jwt'' (blacklist_key (replace_del ''Bearer '' ''Bearer admin.jwt''))
      = Some \<lparr>ce_value = ''admin.jwt'', ce_timeout = None\<rparr>"
    by (simp add: revoked_cache_def cache_set_def)
  show "ce_value \<lparr>ce_value = ''admin.jwt'', ce_timeout = None\<rparr> \<noteq> []" by simp
  show "req_headers (bearer ''Bearer user.jwt'') ''Authorization'' = Some ''Bearer user.jwt''"
    by (simp add: bearer_def)
  show "prefix ''Bearer '' ''Bearer user.jwt''" by simp
  show "Map.empty (blacklist_key (replace_del ''Bearer '' ''Bearer user.jwt'')) = None" by simp
  show "decode_call (example_env\<lparr>env_utcnow := 2593000\<rparr>)
      (replace_del ''Bearer '' ''Bearer user.jwt'')
      = Raise (InvalidTokenError ''Signature has expired'')"
    by (simp add: decode_call_def config_env_def example_env_def example_decode_def)
qed


section \<open>Issuing and decoding tokens\<close>

text \<open>
  C10. \<open>create_token\<close> changes the mapping it is given: after the call, whatever its
  outcome, the key \<open>exp\<close> holds the instant of the call plus 30 days, and every other key
  holds what it held before.
\<close>

theorem create_token_mutates_payload:
  "fst (create_token E payload) ''exp'' = Some (PDatetime (env_utcnow E + 30 * 86400))
 \<and> (\<forall>k. k \<noteq> ''exp'' \<longrightarrow> fst (create_token E payload) k = payload k)"
  by (simp add: create_token_def Let_def ACCESS_TOKEN_EXPIRE_def timedelta_days_def)

theorem create_token_mutates_payload_witness:
  "fst (create_token example_env [''email'' \<mapsto> PStr ''a@b.c'']) ''exp'' = Some (PDatetime 2593000)
 \<and> fst (create_token example_env [''email'' \<mapsto> PStr ''a@b.c'']) ''email'' = Some (PStr ''a@b.c'')
 \<and> fst (create_token example_env [''email'' \<mapsto> PStr ''a@b.c'']) ''uuid'' = None"
  using create_token_mutates_payload [of example_env "[''email'' \<mapsto> PStr ''a@b.c'']"]
  by (simp add: example_env_def)





section \<open>Waiting for the broker\<close>

lemma wait_step:
  "probe n = Some e \<Longrightarrow> is_KafkaError e \<Longrightarrow>
     wait_for_broker probe n s = wait_for_broker probe (Suc n) (s + 1)"
  by (subst wait_for_broker.simps) (simp add: is_broker_available_def)

lemma wait_up: "probe n = None \<Longrightarrow> wait_for_broker probe n s = Some (Return (), s)"
  by (subst wait_for_broker.simps) (simp add: is_broker_available_def)

lemma wait_raise:
  "probe n = Some e \<Longrightarrow> \<not> is_KafkaError e \<Longrightarrow> wait_for_broker probe n s = Some (Raise e, s)"
  by (subst wait_for_broker.simps) (simp add: is_broker_available_def)

lemma wait_skip:
  "(\<forall>i<k. \<exists>e. probe (n + i) = Some e \<and> is_KafkaError e) \<Longrightarrow>
     wait_for_broker probe n s = wait_for_broker probe (n + k) (s + k)"
proof (induction k arbitrary: n s)
  case 0
  then show ?case by simp
next
  case (Suc k)
  from Suc.prems obtain e where e: "probe n = Some e" "is_KafkaError e"
    by (metis add.right_neutral zero_less_Suc)
  have "\<forall>i<k. \<exists>e. probe (Suc n + i) = Some e \<and> is_KafkaError e"
  proof (intro allI impI)
    fix i assume "i < k"
    then have "Suc i < Suc k" by simp
    with Suc.prems have "\<exists>e. probe (n + Suc i) = Some e \<and> is_KafkaError e" by blast
    then show "\<exists>e. probe (Suc n + i) = Some e \<and> is_KafkaError e" by simp
  qed
  then have "wait_for_broker probe (Suc n) (s + 1) = wait_for_broker probe (Suc n + k) (s + 1 + k)"
    by (rule Suc.IH)
  with wait_step [of probe n e s] e show ?case by simp
qed

lemma wait_never:
  assumes "\<forall>i. \<exists>e. probe i = Some e \<and> is_KafkaError e"
  shows "wait_for_broker probe n s = None"
proof (rule ccontr)
  assume "wait_for_broker probe n s \<noteq> None"
  then obtain y where y: "wait_for_broker probe n s = Some y" by blast
  have "\<exists>i. \<not> (\<exists>e. probe i = Some e \<and> is_KafkaError e)"
  proof (rule wait_for_broker.raw_induct
      [where P = "\<lambda>p n s y. \<exists>i. \<not> (\<exists>e. p i = Some e \<and> is_KafkaError e)", OF _ y])
    fix wait :: "(nat \<Rightarrow> exn option) \<Rightarrow> nat \<Rightarrow> nat \<Rightarrow> (unit outcome \<times> nat) option"
      and p :: "nat \<Rightarrow> exn option" and n s :: nat and r :: "unit outcome \<times> nat"
    assume IH: "\<And>p n s r. wait p n s = Some r \<Longrightarrow>
        \<exists>i. \<not> (\<exists>e. p i = Some e \<and> is_KafkaError e)"
    assume step: "(case is_broker_available p n of
        Return available \<Rightarrow>
          if \<not> available then wait p (Suc n) (s + 1) else Some (Return (), s)
      | Raise e \<Rightarrow> Some (Raise e, s)) = Some r"
    show "\<exists>i. \<not> (\<exists>e. p i = Some e \<and> is_KafkaError e)"
    proof (cases "\<exists>e. p n = Some e \<and> is_KafkaError e")
      case True
      then obtain e where "p n = Some e" and "is_KafkaError e" by blast
      with step have "wait p (Suc n) (s + 1) = Some r"
        by (simp add: is_broker_available_def)
      then show ?thesis by (rule IH)
    next
      case False
      then show ?thesis by blast
    qed
  qed
  with y assms show False by blast
qed

lemma wait_first:
  assumes "\<not> (\<exists>e. probe k = Some e \<and> is_KafkaError e)"
    and "\<forall>i<k. \<exists>e. probe i = Some e \<and> is_KafkaError e"
  shows "wait_for_broker probe 0 0 =
           Some (case probe k of None \<Rightarrow> Return () | Some e \<Rightarrow> Raise e, k)"
proof -
  from assms(2) have "wait_for_broker probe 0 0 = wait_for_broker probe (0 + k) (0 + k)"
    by (intro wait_skip) simp
  then have eq: "wait_for_broker probe 0 0 = wait_for_broker probe k k" by simp
  show ?thesis
  proof (cases "probe k")
    case None
    with eq wait_up [of probe k k] show ?thesis by simp
  next
    case (Some e)
    with assms(1) have "\<not> is_KafkaError e" by simp
    with eq Some wait_raise [of probe k e k] show ?thesis by simp
  qed
qed

lemma first_non_failing:
  fixes probe :: "nat \<Rightarrow> exn option"
  assumes "\<not> (\<exists>e. probe n = Some e \<and> is_KafkaError e)"
  obtains k where "\<not> (\<exists>e. probe k = Some e \<and> is_KafkaError e)"
    and "\<forall>i<k. \<exists>e. probe i = Some e \<and> is_KafkaError e"
proof -
  let ?P = "\<lambda>i. \<not> (\<exists>e. probe i = Some e \<and> is_KafkaError e)"
  from assms have "?P (LEAST i. ?P i)" by (rule LeastI [of ?P])
  moreover have "\<forall>i<(LEAST i. ?P i). \<not> ?P i" using not_less_Least by blast
  ultimately show ?thesis using that by blast
qed

lemma up_after_wait: "wait_for_broker (up_after N) 0 0 = Some (Return (), N)"
proof -
  have "wait_for_broker (up_after N) 0 0 =
      Some (case up_after N N of None \<Rightarrow> Return () | Some e \<Rightarrow> Raise e, N)"
    by (rule wait_first) (simp_all add: up_after_def)
  then show ?thesis by (simp add: up_after_def)
qed

text \<open>
  C9. The wait loop probes, sleeps one second after each refused probe, and probes again.
  When it returns, the probe it returned on found the broker up, every earlier probe was
  refused, and it slept one second per refused probe. If some probe finds the broker up,
  the loop ends. If every probe is refused, the loop never returns. There is no bound on
  the number of probes: a broker that comes up after \<open>N\<close> refusals is waited for, for
  every \<open>N\<close>.
\<close>

theorem wait_for_broker_behaviour:
  "(\<forall>s. wait_for_broker probe 0 0 = Some (Return (), s) \<longrightarrow>
      probe s = None \<and> (\<forall>i<s. \<exists>e. probe i = Some e \<and> is_KafkaError e))
 \<and> ((\<exists>n. probe n = None) \<longrightarrow> (\<exists>r. wait_for_broker probe 0 0 = Some r))
 \<and> ((\<forall>n. \<exists>e. probe n = Some e \<and> is_KafkaError e) \<longrightarrow> wait_for_broker probe 0 0 = None)
 \<and> (\<forall>N. wait_for_broker (up_after N) 0 0 = Some (Return (), N))"
proof -
  have 1: "\<forall>s. wait_for_broker probe 0 0 = Some (Return (), s) \<longrightarrow>
      probe s = None \<and> (\<forall>i<s. \<exists>e. probe i = Some e \<and> is_KafkaError e)"
  proof (intro allI impI)
    fix s assume ret: "wait_for_broker probe 0 0 = Some (Return (), s)"
    have "\<not> (\<forall>i. \<exists>e. probe i = Some e \<and> is_KafkaError e)"
      using ret wait_never [of probe 0 0] by auto
    then obtain n where "\<not> (\<exists>e. probe n = Some e \<and> is_KafkaError e)" by blast
    then obtain k where k: "\<not> (\<exists>e. probe k = Some e \<and> is_KafkaError e)"
      "\<forall>i<k. \<exists>e. probe i = Some e \<and> is_KafkaError e"
      by (rule first_non_failing)
    from wait_first [OF k] ret have "s = k" and "probe k = None"
      by (auto split: option.splits)
    with k(2) show "probe s = None \<and> (\<forall>i<s. \<exists>e. probe i = Some e \<and> is_KafkaError e)"
      by simp
  qed
  have 2: "(\<exists>n. probe n = None) \<longrightarrow> (\<exists>r. wait_for_broker probe 0 0 = Some r)"
  proof
    assume "\<exists>n. probe n = None"
    then obtain n where "probe n = None" ..
    then have "\<not> (\<exists>e. probe n = Some e \<and> is_KafkaError e)" by simp
    then obtain k where k: "\<not> (\<exists>e. probe k = Some e \<and> is_KafkaError e)"
      "\<forall>i<k. \<exists>e. probe i = Some e \<and> is_KafkaError e"
      by (rule first_non_failing)
    from wait_first [OF k] show "\<exists>r. wait_for_broker probe 0 0 = Some r" by blast
  qed
  have 3: "(\<forall>n. \<exists>e. probe n = Some e \<and> is_KafkaError e) \<longrightarrow>
      wait_for_broker probe 0 0 = None"
    using wait_never [of probe 0 0] by blast
  have 4: "\<forall>N. wait_for_broker (up_after N) 0 0 = Some (Return (), N)"
    by (simp add: up_after_wait)
  from 1 2 3 4 show ?thesis by (intro conjI)
qed

theorem wait_for_broker_behaviour_witness:
  "wait_for_broker (up_after 3) 0 0 = Some (Return (), 3)
 \<and> up_after 3 3 = None
 \<and> up_after 3 2 = Some (KafkaError ''NoBrokersAvailable'')
 \<and> wait_for_broker never_up 0 0 = None"
proof -
  have a: "wait_for_broker (up_after 3) 0 0 = Some (Return (), 3)"
    using wait_for_broker_behaviour [of "up_after 3"] by blast
  have b: "wait_for_broker never_up 0 0 = None"
    using wait_for_broker_behaviour [of never_up] by (simp add: never_up_def)
  from a b show ?thesis by (simp add: up_after_def)
qed



section \<open>Publishing\<close>

text \<open>
  C3, as the specification states it, fails: an exception of the client that is not a
  \<open>KafkaError\<close>, such as the \<open>TypeError\<close> of the value serializer on a payload that has
  no JSON form, leaves \<open>producer\<close>, and nothing is printed.
\<close>

theorem producer_counterexample:
  "producer serializer_fails ''requests'' ''gateway'' ()
     = ([], Raise (TypeError ''not JSON serializable''))"
  by (simp add: producer_def producer_try_def serializer_fails_def)

text \<open>
  C3, amended. When the client raises a \<open>KafkaError\<close> while connecting, sending, flushing
  or closing, \<open>producer\<close> prints the failure and returns normally; when nothing raises it
  returns normally and prints nothing; an exception of any other class propagates to the
  caller of \<open>producer\<close>. The exception of the \<open>try\<close> body is that of the first call
  that raises.
\<close>

theorem producer_catches_KafkaError:
  "(producer_try K topic key value = Return () \<longrightarrow>
      producer K topic key value = ([], Return ()))
 \<and> (\<forall>e. producer_try K topic key value = Raise e \<and> is_KafkaError e \<longrightarrow>
      producer K topic key value = ([''Erro ao enviar a mensagem: '' @ str_exn e], Return ()))
 \<and> (\<forall>e. producer_try K topic key value = Raise e \<and> \<not> is_KafkaError e \<longrightarrow>
      producer K topic key value = ([], Raise e))
 \<and> (\<forall>e. producer_try K topic key value = Raise e \<longleftrightarrow>
      pc_connect K = Some e
    \<or> pc_connect K = None \<and> pc_send K topic key value = Some e
    \<or> pc_connect K = None \<and> pc_send K topic key value = None \<and> pc_flush K = Some e
    \<or> pc_connect K = None \<and> pc_send K topic key value = None \<and> pc_flush K = None
        \<and> pc_close K = Some e)"
  by (auto simp: producer_def producer_try_def split: option.splits)

theorem producer_catches_KafkaError_witness:
  "producer broker_down ''requests'' ''gateway'' ()
     = ([''Erro ao enviar a mensagem: NoBrokersAvailable''], Return ())"
proof -
  let ?e = "KafkaError ''NoBrokersAvailable''"
  have "\<forall>e. producer_try broker_down ''requests'' ''gateway'' () = Raise e \<and> is_KafkaError e \<longrightarrow>
      producer broker_down ''requests'' ''gateway'' ()
        = ([''Erro ao enviar a mensagem: '' @ str_exn e], Return ())"
    using producer_catches_KafkaError [of broker_down "''requests''" "''gateway''" "()"]
    by blast
  then have "producer_try broker_down ''requests'' ''gateway'' () = Raise ?e \<and> is_KafkaError ?e \<longrightarrow>
      producer broker_down ''requests'' ''gateway'' ()
        = ([''Erro ao enviar a mensagem: '' @ str_exn ?e], Return ())"
    by (rule spec)
  moreover have "producer_try broker_down ''requests'' ''gateway'' () = Raise ?e"
    by (simp add: producer_try_def broker_down_def)
  ultimately show ?thesis by simp
qed


section \<open>Consuming\<close>

lemma consume_loop_stops:
  assumes "\<forall>m \<in> set before. snd (handle_message K callback m) = Return ()"
    and "handle_message K callback message = (calls, Raise e)"
  shows "consume_loop K callback (before @ message # after)
           = (concat (map (\<lambda>m. fst (handle_message K callback m)) before) @ calls, Raise e)"
  using assms
proof (induction before)
  case Nil
  then show ?case by simp
next
  case (Cons m ms)
  then obtain cs where "handle_message K callback m = (cs, Return ())"
    by (cases "handle_message K callback m") auto
  with Cons show ?case by simp
qed

text \<open>
  C5, as the specification states it, fails: with three messages on the channel and a
  callback that raises on the first, the second and third are never handed to the
  callback. An exception that is not a \<open>KafkaError\<close> leaves \<open>consumer\<close> without being
  printed; a \<open>KafkaError\<close> is printed and ends \<open>consumer\<close>.
\<close>

theorem consumer_counterexample:
  "consumer three_messages ''emails'' (fails_on ''k1'' (OtherException ''handler failed''))
     = Some ([(''k1'', ''v1'')], [], Raise (OtherException ''handler failed''))
 \<and> consumer three_messages ''emails'' (fails_on ''k1'' (KafkaError ''handler failed''))
     = Some ([(''k1'', ''v1'')], [''Erro ao enviar a mensagem: handler failed''], Return ())"
  by (simp add: consumer_def consumer_try_def three_messages_def handle_message_def
      bytes_decode_def fails_on_def wait_up)

text \<open>
  C5, amended. Once the broker is up and the consumer subscribed, the messages are handled
  in order up to the first one on which poll, decoding or the callback raises. No later
  message is handled and the failed one is not handled again. If the exception is a
  \<open>KafkaError\<close> it is printed and \<open>consumer\<close> returns; otherwise it propagates out of
  \<open>consumer\<close>.
\<close>

theorem consumer_stops_at_failure:
  assumes "wait_for_broker (cc_probe K) 0 0 = Some (Return (), slept)"
    and "cc_connect K = None" and "cc_subscribe K topic = None"
    and "cc_messages K = before @ message # after"
    and "\<forall>m \<in> set before. snd (handle_message K callback m) = Return ()"
    and "handle_message K callback message = (calls, Raise e)"
  shows "consumer K topic callback =
           Some (concat (map (\<lambda>m. fst (handle_message K callback m)) before) @ calls,
                 if is_KafkaError e then [''Erro ao enviar a mensagem: '' @ str_exn e] else [],
                 if is_KafkaError e then Return () else Raise e)"
  using assms(1-4) consume_loop_stops [OF assms(5,6), of after]
  by (simp add: consumer_def consumer_try_def)

theorem consumer_stops_at_failure_witness:
  "consumer three_messages ''emails'' (fails_on ''k2'' (KafkaError ''handler failed''))
     = Some ([(''k1'', ''v1''), (''k2'', ''v2'')],
             [''Erro ao enviar a mensagem: handler failed''], Return ())"
proof -
  let ?cb = "fails_on ''k2'' (KafkaError ''handler failed'')"
  let ?m1 = "\<lparr>rm_key = Some ''k1'', rm_value = Some ''v1''\<rparr>"
  let ?m2 = "\<lparr>rm_key = Some ''k2'', rm_value = Some ''v2''\<rparr>"
  let ?m3 = "\<lparr>rm_key = Some ''k3'', rm_value = Some ''v3''\<rparr>"
  have h1: "handle_message three_messages ?cb ?m1 = ([(''k1'', ''v1'')], Return ())"
    by (simp add: handle_message_def three_messages_def bytes_decode_def fails_on_def)
  have "consumer three_messages ''emails'' ?cb =
           Some (concat (map (\<lambda>m. fst (handle_message three_messages ?cb m)) [?m1])
                   @ [(''k2'', ''v2'')],
                 if is_KafkaError (KafkaError ''handler failed'')
                 then [''Erro ao enviar a mensagem: '' @ str_exn (KafkaError ''handler failed'')]
                 else [],
                 if is_KafkaError (KafkaError ''handler failed'') then Return ()
                 else Raise (KafkaError ''handler failed''))"
  proof (rule consumer_stops_at_failure)
    show "wait_for_broker (cc_probe three_messages) 0 0 = Some (Return (), 0)"
      by (simp add: three_messages_def wait_up)
    show "cc_connect three_messages = None" by (simp add: three_messages_def)
    show "cc_subscribe three_messages ''emails'' = None" by (simp add: three_messages_def)
    show "cc_messages three_messages = [?m1] @ ?m2 # [?m3]"
      by (simp add: three_messages_def)
    show "\<forall>m \<in> set [?m1]. snd (handle_message three_messages ?cb m) = Return ()"
      using h1 by simp
    show "handle_message three_messages ?cb ?m2
        = ([(''k2'', ''v2'')], Raise (KafkaError ''handler failed''))"
      by (simp add: handle_message_def three_messages_def bytes_decode_def fails_on_def)
  qed
  with h1 show ?thesis by simp
qed



section \<open>The audit event\<close>

lemma gateway_request_health:
  "gw_endpoint request = Some ''health'' \<Longrightarrow>
     gateway_request W0 W1 request response = (Return response, [])"
  by (simp add: gateway_request_def register_request_log_def start_timer_def add_transaction_id_def)

lemma params_text_join:
  "params_text W request =
     (case gw_view_args request of
        None \<Rightarrow> []
      | Some kvs \<Rightarrow> join '', '' (map (\<lambda>(name, value). str_arg W value) kvs))"
  by (simp add: params_text_def split: option.splits list.splits)

lemma add_transaction_id_chosen:
  "gw_transaction_id (add_transaction_id W request) =
     Some (case gw_headers request ''X-TRANSACTION-ID'' of
             None \<Rightarrow> uuid4 W
           | Some v \<Rightarrow> if v = [] then uuid4 W else v)"
  by (cases "gw_headers request ''X-TRANSACTION-ID''") (simp_all add: add_transaction_id_def)

lemma gateway_request_audit:
  assumes "gw_endpoint request \<noteq> Some ''health''"
  shows "gateway_request W0 W1 request response =
     (Return response,
      [Thread_producer (os_getenv W1 ''TOPIC_REQUESTS_LOG'') (app_name W1)
         [(''datetime'', PStr (datetime_now W1)),
          (''service'', PStr (app_name W1)),
          (''transaction_id'',
             PStr (case gw_headers request ''X-TRANSACTION-ID'' of
                     None \<Rightarrow> uuid4 W0
                   | Some v \<Rightarrow> if v = [] then uuid4 W0 else v)),
          (''ip'', opt_str (gw_remote_addr request)),
          (''method'', PStr (gw_method request)),
          (''endpoint'',
             PStr (case gw_url_rule request of Some rule \<Rightarrow> rule | None \<Rightarrow> ''NOT_FOUND'')),
          (''params'',
             PStr (case gw_view_args request of
                     None \<Rightarrow> []
                   | Some kvs \<Rightarrow> join '', '' (map (\<lambda>(name, value). str_arg W1 value) kvs))),
          (''status'', PInt (status_code response)),
          (''duration'', PFloat (time_time W1 - time_time W0))]])"
proof (cases "gw_headers request ''X-TRANSACTION-ID''")
  case None
  with assms show ?thesis
    by (simp add: gateway_request_def register_request_log_def start_timer_def
        add_transaction_id_def params_text_join)
next
  case (Some v)
  with assms show ?thesis
    by (simp add: gateway_request_def register_request_log_def start_timer_def
        add_transaction_id_def params_text_join)
qed

text \<open>
  C8. A request whose endpoint is not \<open>health\<close> goes through the hooks with its response
  unchanged and starts exactly one thread, which publishes on the topic of
  \<open>TOPIC_REQUESTS_LOG\<close>, keyed by the application's name, a payload with exactly the
  fields \<open>datetime\<close>, \<open>service\<close>, \<open>transaction_id\<close>, \<open>ip\<close>, \<open>method\<close>, \<open>endpoint\<close>,
  \<open>params\<close>, \<open>status\<close> and \<open>duration\<close>. \<open>params\<close> is the path parameters, each as
  text, joined by a comma and a blank (empty when there are none); \<open>endpoint\<close> is the
  rule of the matched route (\<open>NOT_FOUND\<close> when no route matched). The hook does not run
  the publish itself, so its result does not depend on the broker. A request to \<open>health\<close>
  starts no thread.
\<close>

theorem audit_event_published:
  "(gw_endpoint request \<noteq> Some ''health'' \<longrightarrow>
      (\<exists>payload.
         gateway_request W0 W1 request response
           = (Return response,
              [Thread_producer (os_getenv W1 ''TOPIC_REQUESTS_LOG'') (app_name W1) payload])
       \<and> map fst payload
           = [''datetime'', ''service'', ''transaction_id'', ''ip'', ''method'', ''endpoint'',
              ''params'', ''status'', ''duration'']
       \<and> map_of payload ''params''
           = Some (PStr (case gw_view_args request of
                           None \<Rightarrow> []
                         | Some kvs \<Rightarrow>
                             join '', '' (map (\<lambda>(name, value). str_arg W1 value) kvs)))
       \<and> map_of payload ''endpoint''
           = Some (PStr (case gw_url_rule request of
                           Some rule \<Rightarrow> rule
                         | None \<Rightarrow> ''NOT_FOUND''))
       \<and> map_of payload ''datetime'' = Some (PStr (datetime_now W1))
       \<and> map_of payload ''service'' = Some (PStr (app_name W1))
       \<and> map_of payload ''ip'' = Some (opt_str (gw_remote_addr request))
       \<and> map_of payload ''method'' = Some (PStr (gw_method request))
       \<and> map_of payload ''status'' = Some (PInt (status_code response))
       \<and> map_of payload ''duration'' = Some (PFloat (time_time W1 - time_time W0))))
 \<and> (gw_endpoint request = Some ''health'' \<longrightarrow>
      gateway_request W0 W1 request response = (Return response, []))"
  by (simp add: gateway_request_health gateway_request_audit)

theorem audit_event_published_witness:
  "gateway_request gw_start gw_end (gw_example (Some ''user_role'') Map.empty) ok_response
     = (Return ok_response,
        [Thread_producer (Some ''requests'') ''gateway''
           [(''datetime'', PStr ''2024-01-01 00:00:12''),
            (''service'', PStr ''gateway''),
            (''transaction_id'', PStr ''0f8fad5b''),
            (''ip'', PStr ''10.0.0.1''),
            (''method'', PStr ''GET''),
            (''endpoint'', PStr ''/users/<user_uuid>/roles/<role>/''),
            (''params'', PStr ''u1, admin''),
            (''status'', PInt 200),
            (''duration'', PFloat 2)]])
 \<and> gateway_request gw_start gw_end (gw_example (Some ''health'') Map.empty) ok_response
     = (Return ok_response, [])"
proof -
  have a: "gateway_request gw_start gw_end (gw_example (Some ''health'') Map.empty) ok_response
      = (Return ok_response, [])"
    using audit_event_published
      [of "gw_example (Some ''health'') Map.empty" gw_start gw_end ok_response]
    by (simp add: gw_example_def)
  have b: "gateway_request gw_start gw_end (gw_example (Some ''user_role'') Map.empty) ok_response
     = (Return ok_response,
        [Thread_producer (Some ''requests'') ''gateway''
           [(''datetime'', PStr ''2024-01-01 00:00:12''),
            (''service'', PStr ''gateway''),
            (''transaction_id'', PStr ''0f8fad5b''),
            (''ip'', PStr ''10.0.0.1''),
            (''method'', PStr ''GET''),
            (''endpoint'', PStr ''/users/<user_uuid>/roles/<role>/''),
            (''params'', PStr ''u1, admin''),
            (''status'', PInt 200),
            (''duration'', PFloat 2)]])"
    by (simp add: gateway_request_def register_request_log_def start_timer_def
        add_transaction_id_def params_text_def gw_example_def gw_start_def gw_end_def
        ok_response_def opt_str_def)
  from a b show ?thesis by simp
qed


section \<open>The correlation identifier\<close>

text \<open>
  C6, as the specification states it, fails in two places. At the gateway, a request
  whose \<open>X-TRANSACTION-ID\<close> header is present and empty gets a generated identifier, not
  the header's value. In the authentication service, the event that
  \<open>ForgotPasswordResource.post\<close> hands to the notification worker for a request without
  the header carries \<open>None\<close> as its \<open>transaction_id\<close>: the handler reads the header, not
  an identifier generated for the request.
\<close>

theorem transaction_id_counterexample:
  "gw_transaction_id
     (add_transaction_id gw_start (gw_example (Some ''user_role'') [''X-TRANSACTION-ID'' \<mapsto> []]))
     = Some ''0f8fad5b''
 \<and> ForgotPasswordResource_post example_env no_headers
     = (Return (Message EMAIL_SENT_SUCCESSFULLY, 200),
        [Thread_producer ''recovery'' ''u1''
           [(''transaction_id'', PNone),
            (''email'', PStr ''a@b.c''),
            (''subject'', PStr ''Recovey Password''),
            (''template'',
               PStr (html_link ''http://gw/auth/users/reset-password/email.a@b.c/''))]])"
proof -
  have tok: "snd (create_token example_env [''email'' \<mapsto> PStr ''a@b.c''])
      = Return (Value ''email.a@b.c'')"
    by (simp add: create_token_def Let_def) (simp add: example_env_def example_encode_def)
  have db: "get_by_email example_env (PStr ''a@b.c'') = Some example_user"
    and sch: "validate_schema example_env ''ForgotPasswordSchema'' [''email'' \<mapsto> PStr ''a@b.c''] = None"
    by (simp_all add: example_env_def)
  have a: "gw_transaction_id
     (add_transaction_id gw_start (gw_example (Some ''user_role'') [''X-TRANSACTION-ID'' \<mapsto> []]))
     = Some ''0f8fad5b''"
    by (simp add: add_transaction_id_def gw_example_def gw_start_def)
  have b: "forgot_password_try example_env no_headers
     = (Return (Message EMAIL_SENT_SUCCESSFULLY, 200),
        [Thread_producer ''recovery'' ''u1''
           [(''transaction_id'', PNone),
            (''email'', PStr ''a@b.c''),
            (''subject'', PStr ''Recovey Password''),
            (''template'',
               PStr (html_link ''http://gw/auth/users/reset-password/email.a@b.c/''))]])"
    by (simp add: forgot_password_try_def no_headers_def Let_def opt_str_def
          format_token_def tok db sch example_user_def)
  from a b show ?thesis by (simp add: ForgotPasswordResource_post_def except_500_def)
qed

text \<open>
  C6, amended. At the gateway, a request without an \<open>X-TRANSACTION-ID\<close> header, or with
  an empty one, gets the identifier that \<open>uuid4\<close> gives at the start of the request; a
  request with a header that is not empty gets the header's value. The identifier chosen
  at the start is the \<open>transaction_id\<close> of the audit event of the request.
\<close>

theorem audit_transaction_id:
  "(gw_endpoint request \<noteq> Some ''health'' \<longrightarrow>
      (\<exists>topic key payload.
         snd (gateway_request W0 W1 request response) = [Thread_producer topic key payload]
       \<and> map_of payload ''transaction_id''
           = map_option PStr (gw_transaction_id (add_transaction_id W0 request))))
 \<and> (gw_headers request ''X-TRANSACTION-ID'' = None \<longrightarrow>
      gw_transaction_id (add_transaction_id W0 request) = Some (uuid4 W0))
 \<and> (gw_headers request ''X-TRANSACTION-ID'' = Some [] \<longrightarrow>
      gw_transaction_id (add_transaction_id W0 request) = Some (uuid4 W0))
 \<and> (\<forall>v. gw_headers request ''X-TRANSACTION-ID'' = Some v \<and> v \<noteq> [] \<longrightarrow>
      gw_transaction_id (add_transaction_id W0 request) = Some v)"
  by (simp add: gateway_request_audit add_transaction_id_chosen)

theorem audit_transaction_id_witness:
  "snd (gateway_request gw_start gw_end (gw_example (Some ''user_role'') Map.empty) ok_response)
     = [Thread_producer (Some ''requests'') ''gateway''
           [(''datetime'', PStr ''2024-01-01 00:00:12''),
            (''service'', PStr ''gateway''),
            (''transaction_id'', PStr ''0f8fad5b''),
            (''ip'', PStr ''10.0.0.1''),
            (''method'', PStr ''GET''),
            (''endpoint'', PStr ''/users/<user_uuid>/roles/<role>/''),
            (''params'', PStr ''u1, admin''),
            (''status'', PInt 200),
            (''duration'', PFloat 2)]]
 \<and> gw_transaction_id
       (add_transaction_id gw_start (gw_example (Some ''user_role'') Map.empty))
     = Some ''0f8fad5b''
 \<and> gw_transaction_id
       (add_transaction_id gw_start
          (gw_example (Some ''user_role'') [''X-TRANSACTION-ID'' \<mapsto> ''abc'']))
     = Some ''abc''"
proof -
  have a: "gw_transaction_id
       (add_transaction_id gw_start (gw_example (Some ''user_role'') Map.empty))
     = Some ''0f8fad5b''"
    using audit_transaction_id
      [of "gw_example (Some ''user_role'') Map.empty" gw_start gw_end ok_response,
       THEN conjunct2, THEN conjunct1]
    by (simp add: gw_example_def gw_start_def)
  have b: "gw_transaction_id
       (add_transaction_id gw_start
          (gw_example (Some ''user_role'') [''X-TRANSACTION-ID'' \<mapsto> ''abc'']))
     = Some ''abc''"
    using audit_transaction_id
      [of "gw_example (Some ''user_role'') [''X-TRANSACTION-ID'' \<mapsto> ''abc'']" gw_start
          gw_end ok_response, THEN conjunct2, THEN conjunct2, THEN conjunct2]
    by (simp add: gw_example_def)
  have c: "snd (gateway_request gw_start gw_end (gw_example (Some ''user_role'') Map.empty) ok_response)
     = [Thread_producer (Some ''requests'') ''gateway''
           [(''datetime'', PStr ''2024-01-01 00:00:12''),
            (''service'', PStr ''gateway''),
            (''transaction_id'', PStr ''0f8fad5b''),
            (''ip'', PStr ''10.0.0.1''),
            (''method'', PStr ''GET''),
            (''endpoint'', PStr ''/users/<user_uuid>/roles/<role>/''),
            (''params'', PStr ''u1, admin''),
            (''status'', PInt 200),
            (''duration'', PFloat 2)]]"
    by (simp add: gateway_request_def register_request_log_def start_timer_def
        add_transaction_id_def params_text_def gw_example_def gw_start_def gw_end_def
        ok_response_def opt_str_def)
  from a b c show ?thesis by simp
qed


section \<open>Revocation entries\<close>

text \<open>
  C4, as the specification states it, fails at logout: the entry is stored without a
  timeout, whatever validity the token has left (here 2592000 seconds), so the cache's
  configured default applies.
\<close>

theorem logout_ttl_counterexample:
  "snd (LogoutResource_get example_env (bearer ''Bearer user.jwt'') Map.empty)
       ''BLACKLIST_TOKEN_user.jwt''
     = Some \<lparr>ce_value = ''user.jwt'', ce_timeout = None\<rparr>
 \<and> decode_call example_env ''user.jwt''
     = Return [''uuid'' \<mapsto> PStr ''u1'', ''is_admin'' \<mapsto> PBool False,
               ''exp'' \<mapsto> PInt (env_utcnow example_env + 2592000)]
 \<and> snd (LogoutResource_get example_env (bearer ''Bearer user.jwt'') Map.empty)
       ''BLACKLIST_TOKEN_user.jwt''
     \<noteq> Some \<lparr>ce_value = ''user.jwt'', ce_timeout = Some 2592000\<rparr>"
proof -
  have d: "decode_call example_env ''user.jwt''
     = Return [''uuid'' \<mapsto> PStr ''u1'', ''is_admin'' \<mapsto> PBool False,
               ''exp'' \<mapsto> PInt 2593000]"
    by (simp add: example_decode_call example_decode_def)
  have l: "snd (LogoutResource_get example_env (bearer ''Bearer user.jwt'') Map.empty)
       ''BLACKLIST_TOKEN_user.jwt''
     = Some \<lparr>ce_value = ''user.jwt'', ce_timeout = None\<rparr>"
    using d
    by (simp add: LogoutResource_get_def verify_token_def bearer_def cache_get_def
        logout_try_def except_500_def cache_set_def blacklist_key_def Let_def)
  from d l show ?thesis by (simp add: example_env_def)
qed

text \<open>
  C4, amended. A logout that passes the guard stores the entry
  \<open>BLACKLIST_TOKEN_<token>\<close> with the token as its value and no timeout of its own (the
  cache's default applies). \<open>ResetPasswordResource.get\<close> and
  \<open>ValidateEmailResource.get\<close> store \<open>BLACKLIST_TOKEN_<token>\<close> with a timeout of
  604800 seconds (7 days) whenever they answer with success, and write nothing else to
  the cache.
\<close>

theorem revocation_entries:
  "(\<forall>header user. req_headers req ''Authorization'' = Some header
        \<and> prefix ''Bearer '' header
        \<and> c (blacklist_key (replace_del ''Bearer '' header)) = None
        \<and> decode_call E (replace_del ''Bearer '' header) = Return user \<longrightarrow>
      snd (LogoutResource_get E req c)
        = c(''BLACKLIST_TOKEN_'' @ replace_del ''Bearer '' header \<mapsto>
              \<lparr>ce_value = replace_del ''Bearer '' header, ce_timeout = None\<rparr>))
 \<and> (fst (ResetPasswordResource_get E token c)
        = Return (Message USER_VALIDATED_SUCCESSFULLY, 200) \<longrightarrow>
      snd (ResetPasswordResource_get E token c)
        = c(''BLACKLIST_TOKEN_'' @ token \<mapsto> \<lparr>ce_value = token, ce_timeout = Some 604800\<rparr>))
 \<and> (snd (ResetPasswordResource_get E token c) = c
      \<or> snd (ResetPasswordResource_get E token c)
        = c(''BLACKLIST_TOKEN_'' @ token \<mapsto> \<lparr>ce_value = token, ce_timeout = Some 604800\<rparr>))
 \<and> (fst (ValidateEmailResource_get E token c)
        = Return (Message USER_VALIDATED_SUCCESSFULLY, 200) \<longrightarrow>
      snd (ValidateEmailResource_get E token c)
        = c(''BLACKLIST_TOKEN_'' @ token \<mapsto> \<lparr>ce_value = token, ce_timeout = Some 604800\<rparr>))
 \<and> (snd (ValidateEmailResource_get E token c) = c
      \<or> snd (ValidateEmailResource_get E token c)
        = c(''BLACKLIST_TOKEN_'' @ token \<mapsto> \<lparr>ce_value = token, ce_timeout = Some 604800\<rparr>))"
proof -
  have 1: "\<forall>header user. req_headers req ''Authorization'' = Some header
        \<and> prefix ''Bearer '' header
        \<and> c (blacklist_key (replace_del ''Bearer '' header)) = None
        \<and> decode_call E (replace_del ''Bearer '' header) = Return user \<longrightarrow>
      snd (LogoutResource_get E req c)
        = c(''BLACKLIST_TOKEN_'' @ replace_del ''Bearer '' header \<mapsto>
              \<lparr>ce_value = replace_del ''Bearer '' header, ce_timeout = None\<rparr>)"
    by (auto simp: LogoutResource_get_def verify_token_def cache_get_def logout_try_def
        except_500_def cache_set_def blacklist_key_def Let_def split: option.splits)
  have 2: "(fst (ResetPasswordResource_get E token c)
        = Return (Message USER_VALIDATED_SUCCESSFULLY, 200) \<longrightarrow>
      snd (ResetPasswordResource_get E token c)
        = c(''BLACKLIST_TOKEN_'' @ token \<mapsto> \<lparr>ce_value = token, ce_timeout = Some 604800\<rparr>))
   \<and> (snd (ResetPasswordResource_get E token c) = c
      \<or> snd (ResetPasswordResource_get E token c)
        = c(''BLACKLIST_TOKEN_'' @ token \<mapsto> \<lparr>ce_value = token, ce_timeout = Some 604800\<rparr>))"
    by (simp add: ResetPasswordResource_get_def reset_password_try_def except_500_def
        cache_set_def blacklist_key_def Let_def
        split: option.splits outcome.splits or_error.splits)
  have 3: "(fst (ValidateEmailResource_get E token c)
        = Return (Message USER_VALIDATED_SUCCESSFULLY, 200) \<longrightarrow>
      snd (ValidateEmailResource_get E token c)
        = c(''BLACKLIST_TOKEN_'' @ token \<mapsto> \<lparr>ce_value = token, ce_timeout = Some 604800\<rparr>))
   \<and> (snd (ValidateEmailResource_get E token c) = c
      \<or> snd (ValidateEmailResource_get E token c)
        = c(''BLACKLIST_TOKEN_'' @ token \<mapsto> \<lparr>ce_value = token, ce_timeout = Some 604800\<rparr>))"
    by (simp add: ValidateEmailResource_get_def validate_email_try_def except_500_def
        cache_set_def blacklist_key_def Let_def
        split: option.splits outcome.splits or_error.splits)
  from 1 2 3 show ?thesis by blast
qed

theorem revocation_entries_witness:
  "snd (LogoutResource_get example_env (bearer ''Bearer user.jwt'') Map.empty)
     = [''BLACKLIST_TOKEN_user.jwt'' \<mapsto> \<lparr>ce_value = ''user.jwt'', ce_timeout = None\<rparr>]
 \<and> snd (ResetPasswordResource_get example_env ''email.a@b.c'' Map.empty)
     = [''BLACKLIST_TOKEN_email.a@b.c'' \<mapsto>
          \<lparr>ce_value = ''email.a@b.c'', ce_timeout = Some 604800\<rparr>]
 \<and> snd (ValidateEmailResource_get example_env ''email.new@b.c'' Map.empty)
     = [''BLACKLIST_TOKEN_email.new@b.c'' \<mapsto>
          \<lparr>ce_value = ''email.new@b.c'', ce_timeout = Some 604800\<rparr>]"
proof -
  have d: "decode_call example_env ''user.jwt''
     = Return [''uuid'' \<mapsto> PStr ''u1'', ''is_admin'' \<mapsto> PBool False,
               ''exp'' \<mapsto> PInt 2593000]"
    by (simp add: example_decode_call example_decode_def)
  have da: "verify_token_email example_env ''email.a@b.c''
     = Return (Value [''email'' \<mapsto> PStr ''a@b.c'', ''exp'' \<mapsto> PInt 2593000])"
    by (simp add: verify_token_email_def example_decode_call example_decode_def)
  have dn: "verify_token_email example_env ''email.new@b.c''
     = Return (Value [''email'' \<mapsto> PStr ''new@b.c'', ''exp'' \<mapsto> PInt 2593000])"
    by (simp add: verify_token_email_def example_decode_call example_decode_def)
  have db: "get_by_email example_env (PStr ''a@b.c'') = Some example_user"
    "get_by_email example_env (PStr ''new@b.c'') = Some new_user"
    "\<And>u. validate_email example_env u = None"
    "\<And>u. schema_dump example_env u = None"
    by (simp_all add: example_env_def)
  have r: "fst (ResetPasswordResource_get example_env ''email.a@b.c'' Map.empty)
      = Return (Message USER_VALIDATED_SUCCESSFULLY, 200)"
    by (simp add: ResetPasswordResource_get_def reset_password_try_def except_500_def
        cache_get_def da db example_user_def Let_def)
  have v: "fst (ValidateEmailResource_get example_env ''email.new@b.c'' Map.empty)
      = Return (Message USER_VALIDATED_SUCCESSFULLY, 200)"
    by (simp add: ValidateEmailResource_get_def validate_email_try_def except_500_def
        cache_get_def dn db new_user_def Let_def)
  note t1 = revocation_entries
    [of "bearer ''Bearer user.jwt''" Map.empty example_env "''email.a@b.c''"]
  note t2 = revocation_entries
    [of "bearer ''Bearer user.jwt''" Map.empty example_env "''email.new@b.c''"]
  have 1: "snd (LogoutResource_get example_env (bearer ''Bearer user.jwt'') Map.empty)
     = [''BLACKLIST_TOKEN_user.jwt'' \<mapsto> \<lparr>ce_value = ''user.jwt'', ce_timeout = None\<rparr>]"
    using t1 [THEN conjunct1, THEN spec, THEN spec,
        of "''Bearer user.jwt''"
           "[''uuid'' \<mapsto> PStr ''u1'', ''is_admin'' \<mapsto> PBool False, ''exp'' \<mapsto> PInt 2593000]"] d
    by (simp add: bearer_def)
  have 2: "snd (ResetPasswordResource_get example_env ''email.a@b.c'' Map.empty)
     = [''BLACKLIST_TOKEN_email.a@b.c'' \<mapsto>
          \<lparr>ce_value = ''email.a@b.c'', ce_timeout = Some 604800\<rparr>]"
    using t1 [THEN conjunct2, THEN conjunct1] r by simp
  have 3: "snd (ValidateEmailResource_get example_env ''email.new@b.c'' Map.empty)
     = [''BLACKLIST_TOKEN_email.new@b.c'' \<mapsto>
          \<lparr>ce_value = ''email.new@b.c'', ce_timeout = Some 604800\<rparr>]"
    using t2 [THEN conjunct2, THEN conjunct2, THEN conjunct2, THEN conjunct1] v by simp
  from 1 2 3 show ?thesis by simp
qed

end
